theory Spec2Isabelle
  imports Main "HOL-Library.Word"
begin

section \<open>The job entity of the queue broker (architecture/job.go)\<close>

text \<open>
  The Go source declares \<^verbatim>\<open>type State int\<close> with four named constants made by
  \<^verbatim>\<open>iota\<close>. A \<^verbatim>\<open>State\<close> is therefore any integer, not only one of the four
  names, and the \<^verbatim>\<open>switch\<close> statements of the source have no \<^verbatim>\<open>default\<close>
  branch. The model keeps that: a state is an integer and the four names are constants.
  State values are only ever compared, never computed with, so the width of Go's
  \<^verbatim>\<open>int\<close> plays no role.

  The numeric fields are \<^verbatim>\<open>int64\<close>: 64-bit words, read as two's complement by
  \<^term>\<open>sint\<close>; \<open>+\<close> and \<open>-\<close> wrap around as Go's do.
\<close>

type_synonym int64 = "64 word"

type_synonym State = int

definition READY :: State where
  "READY = 0"

definition DELAYED :: State where
  "DELAYED = 1"

definition RESERVED :: State where
  "RESERVED = 2"

definition BURIED :: State where
  "BURIED = 3"

record Job =
  id_Job :: string
  Pri :: int64
  Delay :: int64
  StartedDelayAt :: int64
  StartedTTRAt :: int64
  TTR :: int64
  Bytes :: int64
  Data :: string
  state :: State

text \<open>\<^verbatim>\<open>errors.New(msg)\<close>: an error value carrying its message.\<close>

datatype error = Error string

text \<open>\<^verbatim>\<open>new(Job)\<close>: every field holds the zero value of its type.\<close>

definition new_Job :: Job where
  "new_Job = \<lparr>id_Job = [], Pri = 0, Delay = 0, StartedDelayAt = 0, StartedTTRAt = 0,
     TTR = 0, Bytes = 0, Data = [], state = 0\<rparr>"

text \<open>
  \<^verbatim>\<open>NewJob\<close> assigns the six arguments and then picks the state from the sign of
  \<^verbatim>\<open>j.Delay\<close>, a signed comparison. It never reads the clock.
\<close>

definition NewJob :: "string \<Rightarrow> int64 \<Rightarrow> int64 \<Rightarrow> int64 \<Rightarrow> int64 \<Rightarrow> string \<Rightarrow> Job" where
  "NewJob id' pri delay ttr bytes data =
     (let j = new_Job;
          j = j\<lparr>id_Job := id'\<rparr>;
          j = j\<lparr>Pri := pri\<rparr>;
          j = j\<lparr>Delay := delay\<rparr>;
          j = j\<lparr>TTR := ttr\<rparr>;
          j = j\<lparr>Bytes := bytes\<rparr>;
          j = j\<lparr>Data := data\<rparr>
      in if sint (Delay j) \<le> 0 then j\<lparr>state := READY\<rparr> else j\<lparr>state := DELAYED\<rparr>)"

text \<open>
  The methods have a pointer receiver \<^verbatim>\<open>(j *Job)\<close> and may write through it. Each
  is modelled as a function from the job before the call to the pair of the returned
  value and the job after the call. The value \<^verbatim>\<open>time.Now().Unix()\<close> that a call
  reads is the parameter \<open>now\<close>; each call reads it at most once. An \<^verbatim>\<open>error\<close>
  result is \<open>None\<close> for \<^verbatim>\<open>nil\<close>. The receiver is a job, that is, not the
  \<^verbatim>\<open>nil\<close> pointer.

  The \<^verbatim>\<open>switch\<close> of \<^verbatim>\<open>SetState\<close> has no \<^verbatim>\<open>default\<close>: a target that is none of
  the four named states falls through to \<^verbatim>\<open>return nil\<close> and nothing is written.
  Likewise \<^verbatim>\<open>Key\<close> returns 0 for a BURIED job and for any state without a name.
\<close>

definition SetState :: "int64 \<Rightarrow> State \<Rightarrow> Job \<Rightarrow> error option \<times> Job" where
  "SetState now st j =
     (if st = READY then
        (if state j = RESERVED \<or> state j = DELAYED \<or> state j = BURIED
         then (None, j\<lparr>state := st\<rparr>)
         else (Some (Error ''Invalid state transition to READY''), j))
      else if st = DELAYED then
        (if state j = RESERVED
         then (None, j\<lparr>state := st, StartedDelayAt := now\<rparr>)
         else (Some (Error ''Invalid state transition to RESERVED''), j))
      else if st = RESERVED then
        (if state j = READY
         then (None, j\<lparr>state := st, StartedTTRAt := now\<rparr>)
         else (Some (Error ''Invalid state transition to RESERVED''), j))
      else if st = BURIED then
        (if state j = RESERVED
         then (None, j\<lparr>state := st\<rparr>)
         else (Some (Error ''Invalid state transition to BURIED''), j))
      else (None, j))"

definition State :: "Job \<Rightarrow> State \<times> Job" where
  "State j = (state j, j)"

definition Key :: "int64 \<Rightarrow> Job \<Rightarrow> int64 \<times> Job" where
  "Key now j =
     (if state j = READY then (Pri j, j)
      else if state j = DELAYED then (Delay j - (now - StartedDelayAt j), j)
      else if state j = RESERVED then (TTR j - (now - StartedTTRAt j), j)
      else (0, j))"

definition Id :: "Job \<Rightarrow> string \<times> Job" where
  "Id j = (id_Job j, j)"

subsection \<open>Waiting clients\<close>

text \<open>
  A value of type \<^verbatim>\<open>chan Job\<close> is a reference to a channel object of the runtime, or
  \<^verbatim>\<open>nil\<close>: \<open>None\<close> for \<^verbatim>\<open>nil\<close>, \<open>Some a\<close> for the channel at address \<open>a\<close>.
  The identifier that \<^verbatim>\<open>uuid.NewV1().String()\<close> produces comes from outside this
  file and is a parameter of the constructor.
\<close>

type_synonym chan_Job = "nat option"

record AwaitingClient =
  id_AwaitingClient :: string
  SendChannel :: chan_Job

definition NewAwaitingClient :: "string \<Rightarrow> chan_Job \<Rightarrow> AwaitingClient" where
  "NewAwaitingClient uuid sendChannel =
     \<lparr>id_AwaitingClient = uuid, SendChannel = sendChannel\<rparr>"

definition AwaitingClient_Key :: "AwaitingClient \<Rightarrow> int64 \<times> AwaitingClient" where
  "AwaitingClient_Key w = (0, w)"

definition AwaitingClient_Id :: "AwaitingClient \<Rightarrow> string \<times> AwaitingClient" where
  "AwaitingClient_Id w = (id_AwaitingClient w, w)"

section \<open>Auxiliary facts\<close>

lemmas State_defs = READY_def DELAYED_def RESERVED_def BURIED_def

text \<open>The record that \<^verbatim>\<open>NewJob\<close> returns, field by field.\<close>

lemma NewJob_eval:
  "NewJob id' pri delay ttr bytes data =
     \<lparr>id_Job = id', Pri = pri, Delay = delay, StartedDelayAt = 0, StartedTTRAt = 0,
      TTR = ttr, Bytes = bytes, Data = data,
      state = (if sint delay \<le> 0 then READY else DELAYED)\<rparr>"
  by (simp add: NewJob_def new_Job_def Let_def)

text \<open>
  The value of \<open>d - (n - s)\<close> on \<^verbatim>\<open>int64\<close>, read as a signed number: the integer
  \<open>d - (n - s)\<close> wrapped into 64 bits, and that integer itself when the duration \<open>d\<close>
  and the timestamp \<open>s\<close> are not negative and the clock \<open>n\<close> is not behind \<open>s\<close>.
\<close>

lemma int64_remaining_sint:
  "sint (d - (n - s) :: int64) = signed_take_bit 63 (sint d - (sint n - sint s))"
proof -
  let ?y = "sint n - sint s"
  have "signed_take_bit 63 (sint d - signed_take_bit 63 ?y)
      = signed_take_bit 63 (signed_take_bit 63 (sint d) - signed_take_bit 63 (signed_take_bit 63 ?y))"
    by (simp only: signed_take_bit_diff)
  also have "\<dots> = signed_take_bit 63 (signed_take_bit 63 (sint d) - signed_take_bit 63 ?y)"
    by simp
  also have "\<dots> = signed_take_bit 63 (sint d - ?y)"
    by (simp only: signed_take_bit_diff)
  finally show ?thesis
    by (simp add: sint_word_ariths)
qed

lemma int64_remaining_in_range:
  fixes d n s :: int64
  assumes "0 \<le> sint d" and "0 \<le> sint s" and "sint s \<le> sint n"
  shows "sint (d - (n - s)) = sint d - (sint n - sint s)"
proof -
  have bd: "sint d < 2 ^ 63" and bn: "sint n < 2 ^ 63"
    using sint_lt [of d] sint_lt [of n] by simp_all
  have "- (2 ^ 63) \<le> sint d - (sint n - sint s)"
    and "sint d - (sint n - sint s) < 2 ^ 63"
    using assms bd bn by linarith+
  then have "signed_take_bit 63 (sint d - (sint n - sint s)) = sint d - (sint n - sint s)"
    by (simp add: signed_take_bit_int_eq_self_iff)
  then show ?thesis
    by (simp only: int64_remaining_sint)
qed

text \<open>Every call either returns \<^verbatim>\<open>nil\<close> or hands the job back as it came.\<close>

lemma SetState_result:
  "(case SetState now st j of (None, j') \<Rightarrow> True | (Some e, j') \<Rightarrow> j' = j)"
  by (simp add: SetState_def)

section \<open>The state machine\<close>

text \<open>
  C1. A transition to READY succeeds exactly from RESERVED, DELAYED or BURIED, and then
  the job is in state READY with nothing else changed. From every other state, READY
  itself among them, the call returns the error of an invalid transition to READY.
\<close>

theorem SetState_READY:
  "(fst (SetState now READY j) = None) = (state j \<in> {RESERVED, DELAYED, BURIED})
   \<and> (state j \<in> {RESERVED, DELAYED, BURIED} \<longrightarrow>
        snd (SetState now READY j) = j\<lparr>state := READY\<rparr>)
   \<and> (state j \<notin> {RESERVED, DELAYED, BURIED} \<longrightarrow>
        fst (SetState now READY j) = Some (Error ''Invalid state transition to READY''))
   \<and> (state j = READY \<longrightarrow> fst (SetState now READY j) \<noteq> None)"
  by (simp add: SetState_def State_defs)

theorem SetState_READY_witness:
  "fst (SetState 200 READY (snd (SetState 100 RESERVED (NewJob ''a'' 1 0 60 1 ''x'')))) = None
   \<and> state (snd (SetState 200 READY (snd (SetState 100 RESERVED (NewJob ''a'' 1 0 60 1 ''x'')))))
       = READY
   \<and> fst (SetState 200 READY (NewJob ''a'' 1 0 60 1 ''x''))
       = Some (Error ''Invalid state transition to READY'')"
proof -
  let ?a = "NewJob ''a'' 1 0 60 1 ''x''"
  let ?r = "snd (SetState 100 RESERVED ?a)"
  have a: "state ?a = READY"
    by (simp add: NewJob_eval)
  have r: "state ?r = RESERVED"
    by (simp add: NewJob_eval SetState_def State_defs)
  from r a SetState_READY [of 200 ?r] SetState_READY [of 200 ?a]
  show ?thesis by (simp add: State_defs)
qed

text \<open>
  C2. A transition to RESERVED succeeds exactly from READY. On success the job is in
  state RESERVED and its reserve-start timestamp is the clock value read by the call;
  from every other state the call returns an error and the job is as before.
\<close>

theorem SetState_RESERVED:
  "(fst (SetState now RESERVED j) = None) = (state j = READY)
   \<and> (state j = READY \<longrightarrow>
        snd (SetState now RESERVED j) = j\<lparr>state := RESERVED, StartedTTRAt := now\<rparr>)
   \<and> (state j \<noteq> READY \<longrightarrow>
        SetState now RESERVED j = (Some (Error ''Invalid state transition to RESERVED''), j))"
  by (simp add: SetState_def State_defs)

theorem SetState_RESERVED_witness:
  "fst (SetState 100 RESERVED (NewJob ''a'' 1 0 60 1 ''x'')) = None
   \<and> state (snd (SetState 100 RESERVED (NewJob ''a'' 1 0 60 1 ''x''))) = RESERVED
   \<and> StartedTTRAt (snd (SetState 100 RESERVED (NewJob ''a'' 1 0 60 1 ''x''))) = 100
   \<and> fst (SetState 100 RESERVED (NewJob ''b'' 1 5 60 1 ''y''))
       = Some (Error ''Invalid state transition to RESERVED'')"
proof -
  let ?a = "NewJob ''a'' 1 0 60 1 ''x''"
  let ?b = "NewJob ''b'' 1 5 60 1 ''y''"
  have a: "state ?a = READY"
    by (simp add: NewJob_eval)
  have b: "state ?b = DELAYED"
    by (simp add: NewJob_eval)
  from a b SetState_RESERVED [of 100 ?a] SetState_RESERVED [of 100 ?b]
  show ?thesis by (simp add: State_defs)
qed

text \<open>
  C3. A transition to DELAYED succeeds exactly from RESERVED. On success the job is in
  state DELAYED and its delay-start timestamp is the clock value read by the call; from
  every other state the call returns an error and the job is as before.
\<close>

theorem SetState_DELAYED:
  "(fst (SetState now DELAYED j) = None) = (state j = RESERVED)
   \<and> (state j = RESERVED \<longrightarrow>
        snd (SetState now DELAYED j) = j\<lparr>state := DELAYED, StartedDelayAt := now\<rparr>)
   \<and> (state j \<noteq> RESERVED \<longrightarrow>
        SetState now DELAYED j = (Some (Error ''Invalid state transition to RESERVED''), j))"
  by (simp add: SetState_def State_defs)

theorem SetState_DELAYED_witness:
  "fst (SetState 200 DELAYED (snd (SetState 100 RESERVED (NewJob ''a'' 1 0 60 1 ''x'')))) = None
   \<and> state (snd (SetState 200 DELAYED (snd (SetState 100 RESERVED (NewJob ''a'' 1 0 60 1 ''x'')))))
       = DELAYED
   \<and> StartedDelayAt
        (snd (SetState 200 DELAYED (snd (SetState 100 RESERVED (NewJob ''a'' 1 0 60 1 ''x'')))))
       = 200
   \<and> fst (SetState 200 DELAYED (NewJob ''a'' 1 0 60 1 ''x'')) \<noteq> None"
proof -
  let ?a = "NewJob ''a'' 1 0 60 1 ''x''"
  let ?r = "snd (SetState 100 RESERVED ?a)"
  have a: "state ?a = READY"
    by (simp add: NewJob_eval)
  have r: "state ?r = RESERVED"
    by (simp add: NewJob_eval SetState_def State_defs)
  from r a SetState_DELAYED [of 200 ?r] SetState_DELAYED [of 200 ?a]
  show ?thesis by (simp add: State_defs)
qed

text \<open>
  C4. A transition to BURIED succeeds exactly from RESERVED, and then the job is in
  state BURIED; from every other state the call returns an error. In particular a
  DELAYED job cannot be buried, and a BURIED job cannot be reserved.
\<close>

theorem SetState_BURIED:
  "(fst (SetState now BURIED j) = None) = (state j = RESERVED)
   \<and> (state j = RESERVED \<longrightarrow> snd (SetState now BURIED j) = j\<lparr>state := BURIED\<rparr>)
   \<and> (state j \<noteq> RESERVED \<longrightarrow>
        SetState now BURIED j = (Some (Error ''Invalid state transition to BURIED''), j))
   \<and> (state j = DELAYED \<longrightarrow> fst (SetState now BURIED j) \<noteq> None)
   \<and> (state j = BURIED \<longrightarrow> fst (SetState now RESERVED j) \<noteq> None)"
  by (simp add: SetState_def State_defs)

theorem SetState_BURIED_witness:
  "fst (SetState 200 BURIED (snd (SetState 100 RESERVED (NewJob ''a'' 1 0 60 1 ''x'')))) = None
   \<and> state (snd (SetState 200 BURIED (snd (SetState 100 RESERVED (NewJob ''a'' 1 0 60 1 ''x'')))))
       = BURIED
   \<and> fst (SetState 200 BURIED (NewJob ''b'' 1 5 60 1 ''y'')) \<noteq> None
   \<and> fst (SetState 300 RESERVED
        (snd (SetState 200 BURIED (snd (SetState 100 RESERVED (NewJob ''a'' 1 0 60 1 ''x''))))))
       \<noteq> None"
proof -
  let ?a = "NewJob ''a'' 1 0 60 1 ''x''"
  let ?b = "NewJob ''b'' 1 5 60 1 ''y''"
  let ?r = "snd (SetState 100 RESERVED ?a)"
  let ?u = "snd (SetState 200 BURIED ?r)"
  have b: "state ?b = DELAYED"
    by (simp add: NewJob_eval)
  have r: "state ?r = RESERVED"
    by (simp add: NewJob_eval SetState_def State_defs)
  from r SetState_BURIED [of 200 ?r] have u: "state ?u = BURIED"
    by simp
  from r b u SetState_BURIED [of 200 ?r] SetState_BURIED [of 200 ?b]
    SetState_BURIED [of 300 ?u]
  show ?thesis by (simp add: State_defs)
qed

text \<open>
  C5. Whatever the target state, a call that returns an error leaves the state of the
  job as it was; indeed it leaves the whole job as it was.
\<close>

theorem SetState_error_unchanged:
  "fst (SetState now st j) \<noteq> None \<Longrightarrow>
     state (snd (SetState now st j)) = state j \<and> snd (SetState now st j) = j"
  using SetState_result [where now = now and st = st and j = j]
  by (cases "SetState now st j") (auto split: option.splits)

theorem SetState_error_unchanged_witness:
  "fst (SetState 100 BURIED (NewJob ''a'' 1 0 60 1 ''x'')) \<noteq> None
   \<and> state (snd (SetState 100 BURIED (NewJob ''a'' 1 0 60 1 ''x'')))
       = state (NewJob ''a'' 1 0 60 1 ''x'')
   \<and> state (snd (SetState 100 BURIED (NewJob ''a'' 1 0 60 1 ''x''))) = READY"
proof -
  let ?a = "NewJob ''a'' 1 0 60 1 ''x''"
  have a: "state ?a = READY"
    by (simp add: NewJob_eval)
  then have err: "fst (SetState 100 BURIED ?a) \<noteq> None"
    by (simp add: SetState_def State_defs)
  from SetState_error_unchanged [OF err] err a show ?thesis
    by simp
qed

section \<open>Creation\<close>

text \<open>
  C6. A job made by \<^verbatim>\<open>NewJob\<close> starts in state READY when the delay given is at most
  0 (as a signed number), and in state DELAYED when it is greater than 0.
\<close>

theorem NewJob_state:
  "(sint delay \<le> 0 \<longrightarrow> state (NewJob id' pri delay ttr bytes data) = READY)
   \<and> (0 < sint delay \<longrightarrow> state (NewJob id' pri delay ttr bytes data) = DELAYED)"
  by (simp add: NewJob_eval)

theorem NewJob_state_witness:
  "state (NewJob ''a'' 1 0 60 1 ''x'') = READY
   \<and> state (NewJob ''c'' 1 (- 3) 60 1 ''z'') = READY
   \<and> state (NewJob ''b'' 1 5 60 1 ''y'') = DELAYED"
proof -
  have a: "sint (0 :: int64) \<le> 0" by simp
  have c: "sint (- 3 :: int64) \<le> 0" by simp
  have b: "0 < sint (5 :: int64)" by simp
  from NewJob_state [of 0 "''a''" 1 60 1 "''x''"] a
    NewJob_state [of "- 3" "''c''" 1 60 1 "''z''"] c
    NewJob_state [of 5 "''b''" 1 60 1 "''y''"] b
  show ?thesis by blast
qed

text \<open>
  C7. Every entry into DELAYED is meant to record its time in \<^verbatim>\<open>StartedDelayAt\<close>
  (the field is documented as the timestamp of when the job was set to delayed), and
  every entry into RESERVED its time in \<^verbatim>\<open>StartedTTRAt\<close>. \<^verbatim>\<open>SetState\<close> does so on
  both edges. \<^verbatim>\<open>NewJob\<close> does not: it never reads the clock, so a job created with a
  positive delay is DELAYED with \<^verbatim>\<open>StartedDelayAt\<close> still 0. Created at clock value
  1700000000 with a delay of 5 seconds, the job has the key 5 - 1700000000 instead of 5,
  while the same entry through \<^verbatim>\<open>SetState\<close> stores the clock value.
\<close>

theorem NewJob_delayed_timestamp_unset:
  "state (NewJob ''j1'' 0 5 60 1 ''x'') = DELAYED
   \<and> StartedDelayAt (NewJob ''j1'' 0 5 60 1 ''x'') = 0
   \<and> StartedDelayAt (NewJob ''j1'' 0 5 60 1 ''x'') \<noteq> 1700000000
   \<and> sint (fst (Key 1700000000 (NewJob ''j1'' 0 5 60 1 ''x''))) = - 1699999995
   \<and> StartedDelayAt (snd (SetState 1700000000 DELAYED
        (snd (SetState 1699999990 RESERVED (NewJob ''j2'' 0 0 60 1 ''x''))))) = 1700000000"
  by (simp add: NewJob_eval Key_def SetState_def State_defs)

section \<open>The priority key\<close>

text \<open>
  C8. The key of a READY job is its priority; of a DELAYED job, its delay minus the time
  elapsed since \<^verbatim>\<open>StartedDelayAt\<close>; of a RESERVED job, its time to run minus the time
  elapsed since \<^verbatim>\<open>StartedTTRAt\<close>. The subtractions are those of \<^verbatim>\<open>int64\<close>; for a
  duration and a start stamp that are not negative and a clock not behind the start
  stamp, the signed value of the key is that difference of integers.
\<close>

theorem Key_by_state:
  "(state j = READY \<longrightarrow> fst (Key now j) = Pri j)
   \<and> (state j = DELAYED \<longrightarrow> fst (Key now j) = Delay j - (now - StartedDelayAt j))
   \<and> (state j = RESERVED \<longrightarrow> fst (Key now j) = TTR j - (now - StartedTTRAt j))
   \<and> (state j = DELAYED \<and> 0 \<le> sint (Delay j) \<and> 0 \<le> sint (StartedDelayAt j)
        \<and> sint (StartedDelayAt j) \<le> sint now \<longrightarrow>
      sint (fst (Key now j)) = sint (Delay j) - (sint now - sint (StartedDelayAt j)))
   \<and> (state j = RESERVED \<and> 0 \<le> sint (TTR j) \<and> 0 \<le> sint (StartedTTRAt j)
        \<and> sint (StartedTTRAt j) \<le> sint now \<longrightarrow>
      sint (fst (Key now j)) = sint (TTR j) - (sint now - sint (StartedTTRAt j)))"
  by (simp add: Key_def State_defs int64_remaining_in_range)

theorem Key_by_state_witness:
  "fst (Key 150 (NewJob ''a'' 7 0 60 1 ''x'')) = 7
   \<and> fst (Key 210 (snd (SetState 200 DELAYED
        ((snd (SetState 100 RESERVED (NewJob ''a'' 7 0 60 1 ''x'')))\<lparr>Delay := 30\<rparr>)))) = 20
   \<and> sint (fst (Key 210 (snd (SetState 200 DELAYED
        ((snd (SetState 100 RESERVED (NewJob ''a'' 7 0 60 1 ''x'')))\<lparr>Delay := 30\<rparr>))))) = 20
   \<and> fst (Key 130 (snd (SetState 100 RESERVED (NewJob ''a'' 7 0 60 1 ''x'')))) = 30
   \<and> sint (fst (Key 130 (snd (SetState 100 RESERVED (NewJob ''a'' 7 0 60 1 ''x''))))) = 30"
proof -
  let ?a = "NewJob ''a'' 7 0 60 1 ''x''"
  let ?r = "snd (SetState 100 RESERVED ?a)"
  let ?d = "snd (SetState 200 DELAYED (?r\<lparr>Delay := 30\<rparr>))"
  have a: "state ?a = READY" "Pri ?a = 7"
    by (simp_all add: NewJob_eval)
  have r: "state ?r = RESERVED" "TTR ?r = 60" "StartedTTRAt ?r = 100"
    by (simp_all add: NewJob_eval SetState_def State_defs)
  have d: "state ?d = DELAYED" "Delay ?d = 30" "StartedDelayAt ?d = 200"
    by (simp_all add: NewJob_eval SetState_def State_defs)
  from a Key_by_state [of ?a 150] have ka: "fst (Key 150 ?a) = 7"
    by simp
  from d Key_by_state [of ?d 210]
  have kd: "fst (Key 210 ?d) = 20" "sint (fst (Key 210 ?d)) = 20"
    by simp_all
  from r Key_by_state [of ?r 130]
  have kr: "fst (Key 130 ?r) = 30" "sint (fst (Key 130 ?r)) = 30"
    by simp_all
  from ka kd kr show ?thesis
    by (simp only: simp_thms)
qed

text \<open>
  C9. The key of a BURIED job is the constant 0, whatever its priority and timestamps,
  and the key of a waiting client is 0 whatever the client holds.
\<close>

theorem Key_constant_zero:
  "(state j = BURIED \<longrightarrow> fst (Key now j) = 0) \<and> fst (AwaitingClient_Key w) = 0"
  by (simp add: Key_def AwaitingClient_Key_def State_defs)

theorem Key_constant_zero_witness:
  "fst (Key 300 (snd (SetState 200 BURIED
      (snd (SetState 100 RESERVED (NewJob ''a'' 7 0 60 1 ''x'')))))) = 0
   \<and> fst (AwaitingClient_Key
        (NewAwaitingClient ''6ba7b810-9dad-11d1-80b4-00c04fd430c8'' (Some 1))) = 0"
proof -
  let ?a = "NewJob ''a'' 7 0 60 1 ''x''"
  let ?u = "snd (SetState 200 BURIED (snd (SetState 100 RESERVED ?a)))"
  have u: "state ?u = BURIED"
    by (simp add: NewJob_eval SetState_def State_defs)
  from u Key_constant_zero [of ?u 300
      "NewAwaitingClient ''6ba7b810-9dad-11d1-80b4-00c04fd430c8'' (Some 1)"]
  show ?thesis by simp
qed

section \<open>What the methods leave alone\<close>

text \<open>
  C10. \<^verbatim>\<open>SetState\<close> never writes the fields \<^verbatim>\<open>id\<close>, \<^verbatim>\<open>Pri\<close>, \<^verbatim>\<open>Delay\<close>,
  \<^verbatim>\<open>TTR\<close>, \<^verbatim>\<open>Bytes\<close> and \<^verbatim>\<open>Data\<close>. It writes \<^verbatim>\<open>StartedDelayAt\<close> only when the
  target is DELAYED and \<^verbatim>\<open>StartedTTRAt\<close> only when the target is RESERVED, so a
  successful call changes the state alone, or the state and the one timestamp of the
  state entered. \<^verbatim>\<open>Key\<close>, \<^verbatim>\<open>State\<close> and \<^verbatim>\<open>Id\<close> leave the job as it was.
\<close>

theorem SetState_frame:
  "id_Job (snd (SetState now st j)) = id_Job j
   \<and> Pri (snd (SetState now st j)) = Pri j
   \<and> Delay (snd (SetState now st j)) = Delay j
   \<and> TTR (snd (SetState now st j)) = TTR j
   \<and> Bytes (snd (SetState now st j)) = Bytes j
   \<and> Data (snd (SetState now st j)) = Data j
   \<and> (st \<noteq> DELAYED \<longrightarrow> StartedDelayAt (snd (SetState now st j)) = StartedDelayAt j)
   \<and> (st \<noteq> RESERVED \<longrightarrow> StartedTTRAt (snd (SetState now st j)) = StartedTTRAt j)
   \<and> (fst (SetState now st j) = None \<longrightarrow>
        snd (SetState now st j) = j\<lparr>state := state (snd (SetState now st j))\<rparr>
        \<or> st = DELAYED
            \<and> snd (SetState now st j) = j\<lparr>state := DELAYED, StartedDelayAt := now\<rparr>
        \<or> st = RESERVED
            \<and> snd (SetState now st j) = j\<lparr>state := RESERVED, StartedTTRAt := now\<rparr>)
   \<and> snd (Key now j) = j \<and> snd (State j) = j \<and> snd (Id j) = j"
  by (simp add: SetState_def Key_def State_def Id_def State_defs)

theorem SetState_frame_witness:
  "Pri (snd (SetState 100 RESERVED (NewJob ''a'' 7 0 60 1 ''x''))) = 7
   \<and> StartedDelayAt (snd (SetState 100 RESERVED (NewJob ''a'' 7 0 60 1 ''x''))) = 0
   \<and> StartedTTRAt (snd (SetState 200 DELAYED
        (snd (SetState 100 RESERVED (NewJob ''a'' 7 0 60 1 ''x''))))) = 100
   \<and> fst (SetState 100 RESERVED (NewJob ''a'' 7 0 60 1 ''x'')) = None
   \<and> snd (SetState 100 RESERVED (NewJob ''a'' 7 0 60 1 ''x''))
       = (NewJob ''a'' 7 0 60 1 ''x'')\<lparr>state := RESERVED, StartedTTRAt := 100\<rparr>"
proof -
  let ?a = "NewJob ''a'' 7 0 60 1 ''x''"
  let ?r = "snd (SetState 100 RESERVED ?a)"
  have a: "Pri ?a = 7" "StartedDelayAt ?a = 0"
    by (simp_all add: NewJob_eval)
  have ok: "fst (SetState 100 RESERVED ?a) = None"
    and r: "StartedTTRAt ?r = 100" "state ?r = RESERVED"
    by (simp_all add: NewJob_eval SetState_def State_defs)
  have ne: "RESERVED \<noteq> DELAYED" "DELAYED \<noteq> RESERVED"
    by (simp_all add: State_defs)
  from a ok r ne SetState_frame [of 100 RESERVED ?a] SetState_frame [of 200 DELAYED ?r]
  show ?thesis by auto
qed

end
